theory Spec2Isabelle
  imports Main
begin

section \<open>Strings of the host language\<close>

text \<open>
  A string is a list of code units; the model keeps the units 0..255 of \<^typ>\<open>char\<close>.
  \<open>String.prototype.trim\<close> removes white space and line terminators at both ends; of
  those, the units below 256 are TAB, LF, VT, FF, CR, SPACE and NBSP.
\<close>

definition is_ws :: "char \<Rightarrow> bool" where
  "is_ws c = ((of_char c :: nat) \<in> {9, 10, 11, 12, 13, 32, 160})"

definition trim :: "string \<Rightarrow> string" where
  "trim s = rev (dropWhile is_ws (rev (dropWhile is_ws s)))"

definition is_digit :: "char \<Rightarrow> bool" where
  "is_digit c = (48 \<le> (of_char c :: nat) \<and> (of_char c :: nat) \<le> 57)"

definition digit_val :: "char \<Rightarrow> nat" where
  "digit_val c = (of_char c :: nat) - 48"

definition digits_val :: "string \<Rightarrow> nat" where
  "digits_val ds = foldl (\<lambda>a c. 10 * a + digit_val c) 0 ds"

text \<open>
  \<open>parseInt(s, 10)\<close>: leading white space is skipped, one sign is read, then the longest
  run of decimal digits; with no digit the result is NaN, here \<open>None\<close>. The result
  is exact; the rounding of integers beyond \<open>2^53\<close> is not modelled.
\<close>

definition parseInt :: "string \<Rightarrow> int option" where
  "parseInt s =
     (let s1 = dropWhile is_ws s;
          neg = (case s1 of [] \<Rightarrow> False | c # _ \<Rightarrow> c = CHR ''-'');
          s2 = (case s1 of [] \<Rightarrow> [] | c # r \<Rightarrow> if c = CHR ''-'' \<or> c = CHR ''+'' then r else s1);
          ds = takeWhile is_digit s2
      in if ds = [] then None
         else Some (if neg then - int (digits_val ds) else int (digits_val ds)))"

text \<open>\<open>Number.prototype.toString\<close> on an integer below \<open>10^21\<close> in magnitude.\<close>

definition digit_char :: "nat \<Rightarrow> char" where
  "digit_char d = char_of (48 + d)"

function digits_of :: "nat \<Rightarrow> string" where
  "digits_of n = (if n < 10 then [digit_char n] else digits_of (n div 10) @ [digit_char (n mod 10)])"
  by pat_completeness auto
termination
  by (relation "measure id") auto

declare digits_of.simps [simp del]

definition toString :: "int \<Rightarrow> string" where
  "toString i = (if i < 0 then CHR ''-'' # digits_of (nat (- i)) else digits_of (nat i))"

subsection \<open>JSON.stringify on strings\<close>

definition hex_char :: "nat \<Rightarrow> char" where
  "hex_char d = (if d < 10 then char_of (48 + d) else char_of (87 + d))"

text \<open>
  \<open>QuoteJSONString\<close>: the quote and the backslash are escaped, the control characters
  below U+0020 are written with their short escape or as a four-digit hexadecimal
  escape, every other unit stands for itself.
\<close>

definition quote_unit :: "char \<Rightarrow> string" where
  "quote_unit c =
     (let n = (of_char c :: nat) in
      if n = 8 then [CHR 0x5C, CHR ''b'']
      else if n = 9 then [CHR 0x5C, CHR ''t'']
      else if n = 10 then [CHR 0x5C, CHR ''n'']
      else if n = 12 then [CHR 0x5C, CHR ''f'']
      else if n = 13 then [CHR 0x5C, CHR ''r'']
      else if n = 34 then [CHR 0x5C, CHR 0x22]
      else if n = 92 then [CHR 0x5C, CHR 0x5C]
      else if n < 32 then [CHR 0x5C, CHR ''u'', CHR ''0'', CHR ''0'', hex_char (n div 16), hex_char (n mod 16)]
      else [c])"

definition quoteJSONString :: "string \<Rightarrow> string" where
  "quoteJSONString s = CHR 0x22 # concat (map quote_unit s) @ [CHR 0x22]"

fun join_comma :: "string list \<Rightarrow> string" where
  "join_comma [] = []"
| "join_comma [x] = x"
| "join_comma (x # y # ys) = x @ CHR '','' # join_comma (y # ys)"

section \<open>Data model\<close>

text \<open>
  The interfaces of \<open>src/index.tsx\<close>, lines 42 to 140. \<open>ReleaseCollaborator\<close> and
  \<open>Collaborator\<close> have the same two fields and are one record here. A \<open>number\<close> that
  holds an identity is an \<^typ>\<open>int\<close>.
\<close>

datatype View = DASHBOARD | MUSIC | PUBLISHING

datatype toast_type = success | error

record Task =
  t_id :: int
  t_text :: string
  t_dueDate :: string
  t_completed :: bool

record ToastMessage =
  toast_id :: int
  toast_message :: string
  toast_kind :: toast_type

record Collaborator =
  name :: string
  share :: string

text \<open>
  Collaborator rows are objects that the views mutate in place while the store still
  refers to them, so they live in a heap: an address is an index into the list of all
  row objects ever created, and a splits array is a list of addresses. Arrays themselves
  are never mutated by the code (every change builds a new array), so they are values.
\<close>

type_synonym addr = nat
type_synonym heap = "Collaborator list"

definition deref :: "heap \<Rightarrow> addr list \<Rightarrow> Collaborator list" where
  "deref h as = map (\<lambda>a. h ! a) as"

datatype release_status = Live | InReview | Submitted | Processing

record Release =
  r_id :: int
  r_title :: string
  r_artist :: string
  r_status :: release_status
  r_genre :: "string option"
  r_releaseDate :: "string option"
  r_splits :: "addr list"

record BookRights =
  territorial :: bool
  translation :: bool
  adaptation :: bool
  audio :: bool
  drm :: bool

text \<open>
  A chapter array can get holes and chapters without a title: \<open>updateChapterContent\<close>
  assigns past the end of the array. A slot is \<open>None\<close> where the array has no element.
\<close>

record BookChapter =
  ch_title :: "string option"
  ch_content :: string

record BookIllustration =
  url :: string
  prompt :: string

datatype book_status = Published | BookProcessing | Draft

text \<open>
  \<open>b_version\<close> is not a field of the source. It counts how often the book object at this
  position of the \<open>books\<close> array has been replaced by a new object, so that position and
  version together stand for the identity of the object, which the effects of the
  publishing view depend on.
\<close>

record Book =
  b_id :: int
  b_title :: string
  b_author :: string
  b_genre :: string
  b_status :: book_status
  b_rights :: BookRights
  b_splits :: "addr list"
  b_chapters :: "BookChapter option list"
  b_blurb :: string
  b_keywords :: string
  b_illustrations :: "BookIllustration list"
  b_coverImageUrl :: string
  b_version :: nat

text \<open>\<open>Partial<Book>\<close>: a field is \<open>None\<close> where the key is absent.\<close>

record BookPatch =
  pt_id :: "int option"
  pt_title :: "string option"
  pt_author :: "string option"
  pt_genre :: "string option"
  pt_status :: "book_status option"
  pt_rights :: "BookRights option"
  pt_splits :: "addr list option"
  pt_chapters :: "BookChapter option list option"
  pt_blurb :: "string option"
  pt_keywords :: "string option"
  pt_illustrations :: "BookIllustration list option"
  pt_coverImageUrl :: "string option"

record Onboarding =
  tourStepIndex :: int
  onboardingComplete :: bool
  activeTabOverride :: "string option"

record MusicState =
  releases :: "Release list"
  m_tasks :: "Task list"

record PublishingState =
  books :: "Book list"
  p_tasks :: "Task list"

text \<open>What \<open>_saveState\<close> hands to \<open>api.saveData\<close>.\<close>

record Snapshot =
  s_music :: MusicState
  s_publishing :: PublishingState
  s_onboardingComplete :: bool

text \<open>
  The store (\<open>AppState\<close>, without the \<open>loading\<close> flags of the generation helpers)
  together with what the actions read and write outside it: the heap of row objects,
  the clock that \<open>Date.now()\<close> and the timers read (milliseconds), the calls of
  \<open>api.saveData\<close> made so far with their time, and the times at which the callbacks
  \<open>() => get()._saveState()\<close> that the store has handed to \<open>setTimeout\<close> are due, in
  firing order. The timers of the toast component, and the one inside \<open>api.saveData\<close>,
  which only delays its return, are not in this queue.
\<close>

record AppStore =
  isInitialized :: bool
  view :: View
  toasts :: "ToastMessage list"
  onboarding :: Onboarding
  music :: MusicState
  publishing :: PublishingState
  rows :: heap
  clock :: nat
  saveLog :: "(nat \<times> Snapshot) list"
  timers :: "nat list"

section \<open>The store\<close>

text \<open>
  The actions of \<open>useAppStore\<close> (\<open>src/index.tsx\<close>, lines 197 to 355) as functions on the
  store. An action that is \<open>async\<close> runs up to its first \<open>await\<close> at once; for the
  mutations that is the whole update followed by the call of \<open>api.saveData\<close>, which
  only waits and returns. The three actions of the onboarding tour and \<open>setLoading\<close>
  are left out.
\<close>

definition initialState :: AppStore where
  "initialState =
     \<lparr>isInitialized = False, view = DASHBOARD, toasts = [],
      onboarding = \<lparr>tourStepIndex = - 1, onboardingComplete = False, activeTabOverride = None\<rparr>,
      music = \<lparr>releases = [], m_tasks = []\<rparr>,
      publishing = \<lparr>books = [], p_tasks = []\<rparr>,
      rows = [], clock = 0, saveLog = [], timers = []\<rparr>"

definition snapshot :: "'a AppStore_scheme \<Rightarrow> Snapshot" where
  "snapshot w =
     \<lparr>s_music = music w, s_publishing = publishing w,
      s_onboardingComplete = onboardingComplete (onboarding w)\<rparr>"

definition saveState :: "'a AppStore_scheme \<Rightarrow> 'a AppStore_scheme" where
  "saveState w = w\<lparr>saveLog := saveLog w @ [(clock w, snapshot w)]\<rparr>"

definition forceSave :: "'a AppStore_scheme \<Rightarrow> 'a AppStore_scheme" where
  "forceSave w = saveState w"

definition setView :: "View \<Rightarrow> 'a AppStore_scheme \<Rightarrow> 'a AppStore_scheme" where
  "setView v w = w\<lparr>view := v\<rparr>"

definition addToast :: "string \<Rightarrow> toast_type \<Rightarrow> 'a AppStore_scheme \<Rightarrow> 'a AppStore_scheme" where
  "addToast msg ty w =
     w\<lparr>toasts := toasts w @ [\<lparr>toast_id = int (clock w), toast_message = msg, toast_kind = ty\<rparr>]\<rparr>"

definition dismissToast :: "int \<Rightarrow> 'a AppStore_scheme \<Rightarrow> 'a AppStore_scheme" where
  "dismissToast i w = w\<lparr>toasts := filter (\<lambda>t. toast_id t \<noteq> i) (toasts w)\<rparr>"

subsection \<open>Start-up\<close>

text \<open>
  What \<open>fetch\<close> and \<open>response.json()\<close> can do to \<open>api.fetchData\<close>: the request fails, or a
  response arrives with its \<open>ok\<close> flag, its status text and a body. The body is not
  JSON, or it is \<open>null\<close>, or it is a snapshot. A snapshot brings its own new row
  objects; its splits arrays hold the addresses these rows get behind the rows that
  exist already.
\<close>

record FetchedData =
  d_music :: MusicState
  d_publishing :: PublishingState
  d_onboardingComplete :: bool
  d_rows :: "Collaborator list"

datatype response_body = NotJson | JsonNull | JsonSnapshot FetchedData

datatype fetch_outcome = NetworkFailure | HttpResponse bool string response_body

text \<open>\<open>api.fetchData\<close>: \<open>Inl\<close> is the error thrown, \<open>Inr None\<close> the value \<open>null\<close>.\<close>

definition fetchData :: "fetch_outcome \<Rightarrow> string + FetchedData option" where
  "fetchData oc =
     (case oc of
        NetworkFailure \<Rightarrow> Inl ''TypeError: Failed to fetch''
      | HttpResponse ok statusText body \<Rightarrow>
          if \<not> ok then Inl (''Failed to fetch: '' @ statusText)
          else (case body of
                  NotJson \<Rightarrow> Inl ''SyntaxError''
                | JsonNull \<Rightarrow> Inr None
                | JsonSnapshot d \<Rightarrow> Inr (Some d)))"

text \<open>
  The \<open>try\<close> block of \<open>initializeApp\<close>: it throws what \<open>api.fetchData\<close> throws, and reading
  \<open>data.music\<close> throws when the data is \<open>null\<close>.
\<close>

definition loadSnapshot :: "fetch_outcome \<Rightarrow> 'a AppStore_scheme \<Rightarrow> string + 'a AppStore_scheme" where
  "loadSnapshot oc w =
     (case fetchData oc of
        Inl err \<Rightarrow> Inl err
      | Inr None \<Rightarrow> Inl ''TypeError''
      | Inr (Some d) \<Rightarrow>
          Inr (w\<lparr>music := d_music d, publishing := d_publishing d,
                 onboarding := (onboarding w)\<lparr>onboardingComplete := d_onboardingComplete d\<rparr>,
                 isInitialized := True, rows := rows w @ d_rows d\<rparr>))"

text \<open>
  \<open>initializeApp\<close> returns a promise; \<open>Inl\<close> is its rejection. The \<open>catch\<close> block calls
  \<open>addToast\<close> and \<open>set\<close>, which do not throw.
\<close>

definition initializeApp :: "fetch_outcome \<Rightarrow> 'a AppStore_scheme \<Rightarrow> string + 'a AppStore_scheme" where
  "initializeApp oc w =
     (let w0 = w\<lparr>isInitialized := False\<rparr> in
      case loadSnapshot oc w0 of
        Inr w1 \<Rightarrow> Inr w1
      | Inl err \<Rightarrow>
          Inr ((addToast ''Could not load data from the server. Please ensure the backend is running.''
                  error w0)\<lparr>isInitialized := True\<rparr>))"

subsection \<open>Music data\<close>

definition addRelease :: "Release \<Rightarrow> 'a AppStore_scheme \<Rightarrow> 'a AppStore_scheme" where
  "addRelease releaseData w =
     (let newRelease = releaseData\<lparr>r_id := int (clock w), r_status := Submitted\<rparr> in
      saveState (w\<lparr>music := (music w)\<lparr>releases := releases (music w) @ [newRelease]\<rparr>\<rparr>))"

definition updateMusicSplits :: "int \<Rightarrow> addr list \<Rightarrow> 'a AppStore_scheme \<Rightarrow> 'a AppStore_scheme" where
  "updateMusicSplits releaseId splits w =
     saveState (w\<lparr>music := (music w)\<lparr>releases :=
        map (\<lambda>r. if r_id r = releaseId then r\<lparr>r_splits := splits\<rparr> else r) (releases (music w))\<rparr>\<rparr>)"

definition addMusicTask :: "string \<Rightarrow> string \<Rightarrow> 'a AppStore_scheme \<Rightarrow> 'a AppStore_scheme" where
  "addMusicTask text dueDate w =
     saveState (w\<lparr>music := (music w)\<lparr>m_tasks := m_tasks (music w) @
        [\<lparr>t_id = int (clock w), t_text = text, t_dueDate = dueDate, t_completed = False\<rparr>]\<rparr>\<rparr>)"

definition toggleMusicTask :: "int \<Rightarrow> 'a AppStore_scheme \<Rightarrow> 'a AppStore_scheme" where
  "toggleMusicTask i w =
     saveState (w\<lparr>music := (music w)\<lparr>m_tasks :=
        map (\<lambda>t. if t_id t = i then t\<lparr>t_completed := \<not> t_completed t\<rparr> else t) (m_tasks (music w))\<rparr>\<rparr>)"

subsection \<open>Publishing data\<close>

text \<open>\<open>{ ...b, ...data }\<close>: a new object with the fields of \<open>data\<close> over those of \<open>b\<close>.\<close>

definition or_else :: "'a option \<Rightarrow> 'a \<Rightarrow> 'a" where
  "or_else p v = (case p of None \<Rightarrow> v | Some x \<Rightarrow> x)"

definition patchBook :: "BookPatch \<Rightarrow> Book \<Rightarrow> Book" where
  "patchBook p b =
     \<lparr>b_id = or_else (pt_id p) (b_id b),
      b_title = or_else (pt_title p) (b_title b),
      b_author = or_else (pt_author p) (b_author b),
      b_genre = or_else (pt_genre p) (b_genre b),
      b_status = or_else (pt_status p) (b_status b),
      b_rights = or_else (pt_rights p) (b_rights b),
      b_splits = or_else (pt_splits p) (b_splits b),
      b_chapters = or_else (pt_chapters p) (b_chapters b),
      b_blurb = or_else (pt_blurb p) (b_blurb b),
      b_keywords = or_else (pt_keywords p) (b_keywords b),
      b_illustrations = or_else (pt_illustrations p) (b_illustrations b),
      b_coverImageUrl = or_else (pt_coverImageUrl p) (b_coverImageUrl b),
      b_version = Suc (b_version b)\<rparr>"

definition emptyPatch :: BookPatch where
  "emptyPatch =
     \<lparr>pt_id = None, pt_title = None, pt_author = None, pt_genre = None, pt_status = None,
      pt_rights = None, pt_splits = None, pt_chapters = None, pt_blurb = None,
      pt_keywords = None, pt_illustrations = None, pt_coverImageUrl = None\<rparr>"

text \<open>The action returns the new identity as a string, next to the new store.\<close>

definition addBook :: "Book \<Rightarrow> 'a AppStore_scheme \<Rightarrow> string \<times> 'a AppStore_scheme" where
  "addBook bookData w =
     (let newBook = bookData\<lparr>b_id := int (clock w), b_version := 0\<rparr> in
      (toString (b_id newBook),
       saveState (w\<lparr>publishing := (publishing w)\<lparr>books := books (publishing w) @ [newBook]\<rparr>\<rparr>)))"

definition updateBook :: "int \<Rightarrow> BookPatch \<Rightarrow> 'a AppStore_scheme \<Rightarrow> 'a AppStore_scheme" where
  "updateBook bookId data' w =
     saveState (w\<lparr>publishing := (publishing w)\<lparr>books :=
        map (\<lambda>b. if b_id b = bookId then patchBook data' b else b) (books (publishing w))\<rparr>\<rparr>)"

text \<open>
  \<open>updatedChapters[chapterIndex] = { ...updatedChapters[chapterIndex], content }\<close> on a
  copy of the array: inside the array the chapter is replaced by a copy with the new
  content; past its end the array grows, with holes up to the index, and the new
  element has no title.
\<close>

definition assignChapter :: "BookChapter option list \<Rightarrow> nat \<Rightarrow> string \<Rightarrow> BookChapter option list" where
  "assignChapter chs i content =
     (let old = (if i < length chs then chs ! i else None);
          new = (case old of
                   None \<Rightarrow> \<lparr>ch_title = None, ch_content = content\<rparr>
                 | Some c \<Rightarrow> c\<lparr>ch_content := content\<rparr>)
      in if i < length chs then chs[i := Some new]
         else chs @ replicate (i - length chs) None @ [Some new])"

text \<open>A timer joins the queue behind the timers that are due no later than it is.\<close>

fun enqueue :: "nat \<Rightarrow> nat list \<Rightarrow> nat list" where
  "enqueue d [] = [d]"
| "enqueue d (e # es) = (if d < e then d # e # es else e # enqueue d es)"

text \<open>
  The action updates the chapter and calls \<open>setTimeout(() => get()._saveState(), 500)\<close>.
  It keeps no handle of the timer and clears none.
\<close>

definition updateChapterContent :: "int \<Rightarrow> nat \<Rightarrow> string \<Rightarrow> 'a AppStore_scheme \<Rightarrow> 'a AppStore_scheme" where
  "updateChapterContent bookId chapterIndex content w =
     (let w1 = w\<lparr>publishing := (publishing w)\<lparr>books :=
                  map (\<lambda>book. if b_id book = bookId
                         then book\<lparr>b_chapters := assignChapter (b_chapters book) chapterIndex content,
                                   b_version := Suc (b_version book)\<rparr>
                         else book) (books (publishing w))\<rparr>\<rparr>
      in w1\<lparr>timers := enqueue (clock w1 + 500) (timers w1)\<rparr>)"

definition addPublishingTask :: "string \<Rightarrow> string \<Rightarrow> 'a AppStore_scheme \<Rightarrow> 'a AppStore_scheme" where
  "addPublishingTask text dueDate w =
     saveState (w\<lparr>publishing := (publishing w)\<lparr>p_tasks := p_tasks (publishing w) @
        [\<lparr>t_id = int (clock w), t_text = text, t_dueDate = dueDate, t_completed = False\<rparr>]\<rparr>\<rparr>)"

definition togglePublishingTask :: "int \<Rightarrow> 'a AppStore_scheme \<Rightarrow> 'a AppStore_scheme" where
  "togglePublishingTask i w =
     saveState (w\<lparr>publishing := (publishing w)\<lparr>p_tasks :=
        map (\<lambda>t. if t_id t = i then t\<lparr>t_completed := \<not> t_completed t\<rparr> else t) (p_tasks (publishing w))\<rparr>\<rparr>)"

subsection \<open>The passing of time\<close>

text \<open>
  Time moves on to \<open>t\<close>: every timer due by then fires, in order, at the time at which it
  is due, and calls \<open>_saveState\<close>.
\<close>

definition advance :: "nat \<Rightarrow> 'a AppStore_scheme \<Rightarrow> 'a AppStore_scheme" where
  "advance t w =
     (let due = takeWhile (\<lambda>d. d \<le> t) (timers w);
          rest = dropWhile (\<lambda>d. d \<le> t) (timers w);
          w1 = fold (\<lambda>d v. saveState (v\<lparr>clock := max (clock v) d\<rparr>)) due (w\<lparr>timers := rest\<rparr>)
      in w1\<lparr>clock := max (clock w1) t\<rparr>)"

section \<open>The dirty check on collaborator rows\<close>

text \<open>
  \<open>JSON.stringify\<close> of an array of rows. Every place that creates a row (the two views,
  \<open>handleSubmitRelease\<close>, \<open>handleCreateBook\<close> and the backend) writes the key \<open>name\<close>
  before the key \<open>share\<close> and no other key.
\<close>

definition json_key :: "string \<Rightarrow> string" where
  "json_key k = CHR 0x22 # k @ [CHR 0x22, CHR '':'']"

definition json_row :: "Collaborator \<Rightarrow> string" where
  "json_row c =
     CHR ''{'' # json_key ''name'' @ quoteJSONString (name c) @
     CHR '','' # json_key ''share'' @ quoteJSONString (share c) @ [CHR ''}'']"

definition JSON_stringify :: "Collaborator list \<Rightarrow> string" where
  "JSON_stringify cs = CHR ''['' # join_comma (map json_row cs) @ [CHR '']'']"

text \<open>The filter \<open>c => c.name.trim() !== '' || c.share.trim() !== ''\<close>.\<close>

definition notEmptyRow :: "Collaborator \<Rightarrow> bool" where
  "notEmptyRow c = (trim (name c) \<noteq> [] \<or> trim (share c) \<noteq> [])"

text \<open>The same filter on an array of row objects: it keeps the objects, not copies.\<close>

definition cleanRows :: "heap \<Rightarrow> addr list \<Rightarrow> addr list" where
  "cleanRows h as = filter (\<lambda>a. notEmptyRow (h ! a)) as"

text \<open>
  The comparison of both \<open>useMemo\<close> blocks: the current rows are filtered, the saved rows
  are taken as they are.
\<close>

definition splitsDiffer :: "Collaborator list \<Rightarrow> Collaborator list \<Rightarrow> bool" where
  "splitsDiffer current saved =
     (JSON_stringify (filter notEmptyRow current) \<noteq> JSON_stringify saved)"

text \<open>What the specification calls normalisation.\<close>

definition normalizeRows :: "Collaborator list \<Rightarrow> Collaborator list" where
  "normalizeRows cs = filter notEmptyRow cs"

text \<open>
  \<open>/^\d*\.?\d*$/.test(value)\<close> and \<open>parseFloat(value) > 100\<close> for a value that passes the
  test. The value \<open>n + f / 10^k\<close> of the digits is rounded to the nearest double, ties
  to even; the doubles next to 100 are \<open>2^-46\<close> apart and 100 has an even significand,
  so the result is above 100 exactly when the value is above \<open>100 + 2^-47\<close>. Without
  any digit \<open>parseFloat\<close> gives NaN, which is not above 100.
\<close>

definition share_pattern :: "string \<Rightarrow> bool" where
  "share_pattern v =
     (case dropWhile is_digit v of
        [] \<Rightarrow> True
      | c # r \<Rightarrow> c = CHR ''.'' \<and> dropWhile is_digit r = [])"

definition parseFloat_gt_100 :: "string \<Rightarrow> bool" where
  "parseFloat_gt_100 v =
     (let ip = takeWhile is_digit v;
          fp = takeWhile is_digit (drop 1 (dropWhile is_digit v));
          k = length fp
      in (digits_val ip * 10 ^ k + digits_val fp) * 2 ^ 47 > (100 * 2 ^ 47 + 1) * 10 ^ k)"

datatype row_field = Field_name | Field_share

section \<open>The music publishing view\<close>

text \<open>
  \<open>MusicPublishingView\<close> (\<open>src/index.tsx\<close>, lines 690 to 1262): the state of the
  component that the navigation guard and the splits editor use, next to the store.
  A handler reads the values of the last render, which are the values of the state it
  is applied to. The two callbacks that the view passes to \<open>handleNavigate\<close> are
  \<open>() => setView('DASHBOARD')\<close> and \<open>() => setActiveTab(tab)\<close>.
\<close>

datatype music_tab =
  M_studio | M_releases | M_analytics | M_splits | M_sync | M_career | M_tasks | M_help

datatype music_action = M_setView View | M_setActiveTab music_tab

record MusicView = AppStore +
  m_activeTab :: music_tab
  m_isNavModalOpen :: bool
  m_nextNavigationAction :: "music_action option"
  selectedReleaseId :: string
  m_collaborators :: "addr list"

definition selectedRelease :: "MusicView \<Rightarrow> Release option" where
  "selectedRelease w =
     List.find (\<lambda>r. Some (r_id r) = parseInt (selectedReleaseId w)) (releases (music w))"

definition m_isDirty :: "MusicView \<Rightarrow> bool" where
  "m_isDirty w =
     (case selectedRelease w of
        None \<Rightarrow> False
      | Some r \<Rightarrow>
          if m_activeTab w \<noteq> M_splits then False
          else splitsDiffer (deref (rows w) (m_collaborators w)) (deref (rows w) (r_splits r)))"

fun m_run :: "music_action \<Rightarrow> MusicView \<Rightarrow> MusicView" where
  "m_run (M_setView v) w = setView v w"
| "m_run (M_setActiveTab t) w = w\<lparr>m_activeTab := t\<rparr>"

definition m_handleNavigate :: "music_action \<Rightarrow> MusicView \<Rightarrow> MusicView" where
  "m_handleNavigate action w =
     (if m_isDirty w
      then w\<lparr>m_nextNavigationAction := Some action, m_isNavModalOpen := True\<rparr>
      else m_run action w)"

text \<open>The effect that loads the edit buffer (lines 775 to 779), as its body.\<close>

definition m_loadCollaborators :: "MusicView \<Rightarrow> MusicView" where
  "m_loadCollaborators w =
     (case selectedRelease w of
        None \<Rightarrow> w
      | Some r \<Rightarrow> if m_activeTab w = M_splits then w\<lparr>m_collaborators := r_splits r\<rparr> else w)"

definition m_handleAddCollaborator :: "MusicView \<Rightarrow> MusicView" where
  "m_handleAddCollaborator w =
     w\<lparr>rows := rows w @ [\<lparr>name = [], share = []\<rparr>],
       m_collaborators := m_collaborators w @ [length (rows w)]\<rparr>"

text \<open>
  \<open>newCollaborators[index][field] = value\<close> writes into the row object itself; the copy
  of the array holds the same objects. With an index outside the array the statement
  throws and no state is set.
\<close>

definition writeRow :: "row_field \<Rightarrow> string \<Rightarrow> Collaborator \<Rightarrow> Collaborator" where
  "writeRow field v c = (case field of Field_name \<Rightarrow> c\<lparr>name := v\<rparr> | Field_share \<Rightarrow> c\<lparr>share := v\<rparr>)"

definition changeRow :: "heap \<Rightarrow> addr list \<Rightarrow> nat \<Rightarrow> row_field \<Rightarrow> string \<Rightarrow> heap" where
  "changeRow h as index field v =
     (if index < length as
      then (case field of
              Field_share \<Rightarrow>
                if v = [] \<or> share_pattern v
                then h[as ! index := writeRow Field_share (if parseFloat_gt_100 v then ''100'' else v) (h ! (as ! index))]
                else h
            | Field_name \<Rightarrow> h[as ! index := writeRow Field_name v (h ! (as ! index))])
      else h)"

definition m_handleCollaboratorChange :: "nat \<Rightarrow> row_field \<Rightarrow> string \<Rightarrow> MusicView \<Rightarrow> MusicView" where
  "m_handleCollaboratorChange index field v w =
     w\<lparr>rows := changeRow (rows w) (m_collaborators w) index field v\<rparr>"

definition splitsToast :: "string \<Rightarrow> string" where
  "splitsToast title = ''Splits for '' @ [CHR 0x22] @ title @ [CHR 0x22] @ '' have been updated.''"

definition m_handleSaveSplits :: "MusicView \<Rightarrow> MusicView" where
  "m_handleSaveSplits w =
     (case selectedRelease w of
        None \<Rightarrow> w
      | Some r \<Rightarrow>
          (let cleanedCollaborators = cleanRows (rows w) (m_collaborators w);
               w1 = updateMusicSplits (r_id r) cleanedCollaborators w;
               w2 = w1\<lparr>m_collaborators := cleanedCollaborators\<rparr>
           in addToast (splitsToast (r_title r)) success w2))"

definition m_handleCancelNavigation :: "MusicView \<Rightarrow> MusicView" where
  "m_handleCancelNavigation w = w\<lparr>m_isNavModalOpen := False, m_nextNavigationAction := None\<rparr>"

definition m_handleDiscardAndNavigate :: "MusicView \<Rightarrow> MusicView" where
  "m_handleDiscardAndNavigate w =
     (let w1 = (case selectedRelease w of None \<Rightarrow> w | Some r \<Rightarrow> w\<lparr>m_collaborators := r_splits r\<rparr>);
          w2 = (case m_nextNavigationAction w of None \<Rightarrow> w1 | Some action \<Rightarrow> m_run action w1)
      in m_handleCancelNavigation w2)"

definition m_handleSaveAndNavigate :: "MusicView \<Rightarrow> MusicView" where
  "m_handleSaveAndNavigate w =
     (let w1 = m_handleSaveSplits w;
          w2 = (case m_nextNavigationAction w of None \<Rightarrow> w1 | Some action \<Rightarrow> m_run action w1)
      in m_handleCancelNavigation w2)"

section \<open>The digital publishing view\<close>

text \<open>
  \<open>DigitalPublishingAIView\<close> (\<open>src/index.tsx\<close>, lines 1286 to 2062). The callbacks that
  the view passes to \<open>handleNavigate\<close> set the view, the tab, the selected book or the
  active chapter, or create a chapter; the last one holds the book that was selected
  when the callback was made. The callback of the book selectors (lines 1771, 1853 and
  1909) is \<open>() => setSelectedBookId(e.target.value)\<close>: it holds the event, not the value
  that was picked, and reads the value of the selector when it runs.
\<close>

datatype pub_tab =
  P_studio | P_distribution | P_analytics | P_rights_splits | P_marketing | P_audiobook
  | P_world_building | P_tasks | P_help

datatype pub_action =
  P_setView View
  | P_setActiveTab pub_tab
  | P_setSelectedBookId
  | P_setActiveChapterIndex nat
  | P_createNewChapter Book

text \<open>
  \<open>bookSelect\<close> is the value of the book selector, the element that \<open>e.target\<close> is in the
  callback above. \<open>awaiting\<close> holds what is left of the chapter-creating callbacks that
  wait for \<open>updateBook\<close>: for each, the argument of its \<open>setActiveChapterIndex\<close>.
\<close>

record PubView = AppStore +
  p_activeTab :: pub_tab
  selectedBookId :: string
  bookSelect :: string
  p_isNavModalOpen :: bool
  p_nextNavigationAction :: "pub_action option"
  isManuscriptDirty :: bool
  manuscriptText :: string
  lastManuscriptState :: "string option"
  activeChapterIndex :: nat
  p_collaborators :: "addr list"
  awaiting :: "nat list"

definition selectedBook :: "PubView \<Rightarrow> Book option" where
  "selectedBook w =
     List.find (\<lambda>b. Some (b_id b) = parseInt (selectedBookId w)) (books (publishing w))"

definition areSplitsDirty :: "PubView \<Rightarrow> bool" where
  "areSplitsDirty w =
     (case selectedBook w of
        None \<Rightarrow> False
      | Some b \<Rightarrow>
          if p_activeTab w \<noteq> P_rights_splits then False
          else splitsDiffer (deref (rows w) (p_collaborators w)) (deref (rows w) (b_splits b)))"

definition p_isDirty :: "PubView \<Rightarrow> bool" where
  "p_isDirty w =
     (if p_activeTab w = P_studio then isManuscriptDirty w
      else if p_activeTab w = P_rights_splits then areSplitsDirty w
      else False)"

text \<open>\<open>selectedBook.chapters[activeChapterIndex]?.content || ''\<close>\<close>

definition chapterContent :: "Book \<Rightarrow> nat \<Rightarrow> string" where
  "chapterContent b i =
     (if i < length (b_chapters b)
      then (case b_chapters b ! i of None \<Rightarrow> [] | Some c \<Rightarrow> ch_content c)
      else [])"

text \<open>
  The chapter-creating callback runs up to the \<open>await\<close> of \<open>updateBook\<close>; the rest of it
  runs when the save has returned.
\<close>

fun p_run :: "pub_action \<Rightarrow> PubView \<Rightarrow> PubView" where
  "p_run (P_setView v) w = setView v w"
| "p_run (P_setActiveTab t) w = w\<lparr>p_activeTab := t\<rparr>"
| "p_run P_setSelectedBookId w = w\<lparr>selectedBookId := bookSelect w\<rparr>"
| "p_run (P_setActiveChapterIndex i) w = w\<lparr>activeChapterIndex := i\<rparr>"
| "p_run (P_createNewChapter b) w =
     (let newChapter = \<lparr>ch_title = Some (''Chapter '' @ digits_of (length (b_chapters b) + 1)),
                        ch_content = []\<rparr>;
          updatedChapters = b_chapters b @ [Some newChapter];
          w1 = updateBook (b_id b) (emptyPatch\<lparr>pt_chapters := Some updatedChapters\<rparr>) w
      in w1\<lparr>awaiting := awaiting w1 @ [length updatedChapters - 1]\<rparr>)"

definition p_resume :: "PubView \<Rightarrow> PubView" where
  "p_resume w =
     (case awaiting w of
        [] \<Rightarrow> w
      | i # rest \<Rightarrow> addToast ''New chapter added.'' success (w\<lparr>activeChapterIndex := i, awaiting := rest\<rparr>))"

definition p_handleNavigate :: "pub_action \<Rightarrow> PubView \<Rightarrow> PubView" where
  "p_handleNavigate action w =
     (if p_isDirty w
      then w\<lparr>p_nextNavigationAction := Some action, p_isNavModalOpen := True\<rparr>
      else p_run action w)"

text \<open>
  The book selector is \<open><select value={selectedBookId}>\<close> with one option for each book,
  whose value is the identity of the book. React keeps the element at the option whose
  value is the \<open>value\<close> property, and at the first option when there is none; it does so
  at every render and again after a change event has been handled. (The selector of line
  1853 has one more option, with the empty value; it is shown only while no book is
  selected.)
\<close>

definition bookOptions :: "PubView \<Rightarrow> string list" where
  "bookOptions w = map (\<lambda>b. toString (b_id b)) (books (publishing w))"

definition controlledValue :: "string \<Rightarrow> string list \<Rightarrow> string" where
  "controlledValue v opts = (if v \<in> set opts then v else case opts of [] \<Rightarrow> [] | x # _ \<Rightarrow> x)"

definition renderBookSelect :: "PubView \<Rightarrow> PubView" where
  "renderBookSelect w = w\<lparr>bookSelect := controlledValue (selectedBookId w) (bookOptions w)\<rparr>"

text \<open>
  The change event of the selector, \<open>e => handleNavigate(() => setSelectedBookId(e.target.value))\<close>,
  when the user picks the option with the value \<open>s\<close>: the element has this value while
  the handler runs.
\<close>

definition p_handleBookSelect :: "string \<Rightarrow> PubView \<Rightarrow> PubView" where
  "p_handleBookSelect s w =
     renderBookSelect (p_handleNavigate P_setSelectedBookId (w\<lparr>bookSelect := s\<rparr>))"


definition p_handleAddCollaborator :: "PubView \<Rightarrow> PubView" where
  "p_handleAddCollaborator w =
     w\<lparr>rows := rows w @ [\<lparr>name = [], share = []\<rparr>],
       p_collaborators := p_collaborators w @ [length (rows w)]\<rparr>"

definition p_handleCollaboratorChange :: "nat \<Rightarrow> row_field \<Rightarrow> string \<Rightarrow> PubView \<Rightarrow> PubView" where
  "p_handleCollaboratorChange index field v w =
     w\<lparr>rows := changeRow (rows w) (p_collaborators w) index field v\<rparr>"

definition p_handleSaveSplits :: "PubView \<Rightarrow> PubView" where
  "p_handleSaveSplits w =
     (case selectedBook w of
        None \<Rightarrow> w
      | Some b \<Rightarrow>
          (let cleanedCollaborators = cleanRows (rows w) (p_collaborators w);
               w1 = updateBook (b_id b) (emptyPatch\<lparr>pt_splits := Some cleanedCollaborators\<rparr>) w;
               w2 = w1\<lparr>p_collaborators := cleanedCollaborators\<rparr>
           in addToast (splitsToast (b_title b)) success w2))"

definition p_handleCancelNavigation :: "PubView \<Rightarrow> PubView" where
  "p_handleCancelNavigation w = w\<lparr>p_isNavModalOpen := False, p_nextNavigationAction := None\<rparr>"

definition p_handleDiscardAndNavigate :: "PubView \<Rightarrow> PubView" where
  "p_handleDiscardAndNavigate w =
     (let w1 = (case selectedBook w of
                  None \<Rightarrow> w
                | Some b \<Rightarrow>
                    if p_activeTab w = P_studio
                    then w\<lparr>manuscriptText := chapterContent b (activeChapterIndex w),
                           isManuscriptDirty := False\<rparr>
                    else if p_activeTab w = P_rights_splits
                    then w\<lparr>p_collaborators := b_splits b\<rparr>
                    else w);
          w2 = (case p_nextNavigationAction w of None \<Rightarrow> w1 | Some action \<Rightarrow> p_run action w1)
      in p_handleCancelNavigation w2)"

text \<open>
  The handler waits for \<open>forceSave\<close> on the studio tab; the model runs the rest of the
  handler in the same step, with nothing else in between.
\<close>

definition p_handleSaveAndNavigate :: "PubView \<Rightarrow> PubView" where
  "p_handleSaveAndNavigate w =
     (let w1 = (if p_activeTab w = P_studio \<and> selectedBook w \<noteq> None
                then (forceSave w)\<lparr>isManuscriptDirty := False\<rparr> else w);
          w2 = (if p_activeTab w = P_rights_splits then p_handleSaveSplits w1 else w1);
          w3 = (case p_nextNavigationAction w of None \<Rightarrow> w2 | Some action \<Rightarrow> p_run action w2)
      in p_handleCancelNavigation w3)"

subsection \<open>Effects\<close>

text \<open>
  The bodies of the effects at lines 1433 to 1455. The first has the dependencies
  \<open>[books, selectedBookId]\<close>, the second \<open>[selectedBook, activeChapterIndex]\<close>, the third
  \<open>[selectedBook, activeTab]\<close>. The effect on \<open>activeTabOverride\<close> belongs to the
  onboarding tour, which is not part of the model.
\<close>

definition p_selectFirstBook :: "PubView \<Rightarrow> PubView" where
  "p_selectFirstBook w =
     (case books (publishing w) of
        [] \<Rightarrow> w
      | b # _ \<Rightarrow> if selectedBookId w = [] then w\<lparr>selectedBookId := toString (b_id b)\<rparr> else w)"

definition p_loadManuscript :: "Book option \<Rightarrow> nat \<Rightarrow> PubView \<Rightarrow> PubView" where
  "p_loadManuscript sel index w =
     (case sel of
        None \<Rightarrow> w\<lparr>lastManuscriptState := None, manuscriptText := []\<rparr>
      | Some b \<Rightarrow> w\<lparr>lastManuscriptState := None, manuscriptText := chapterContent b index,
                    isManuscriptDirty := False\<rparr>)"

definition p_loadCollaborators :: "Book option \<Rightarrow> pub_tab \<Rightarrow> PubView \<Rightarrow> PubView" where
  "p_loadCollaborators sel tab w =
     (case sel of
        None \<Rightarrow> w
      | Some b \<Rightarrow> if tab = P_rights_splits then w\<lparr>p_collaborators := b_splits b\<rparr> else w)"

text \<open>
  The identity of the selected book object: its position in \<open>books\<close> and the version of
  the object there.
\<close>

fun findIndex :: "('a \<Rightarrow> bool) \<Rightarrow> 'a list \<Rightarrow> nat option" where
  "findIndex P [] = None"
| "findIndex P (x # xs) = (if P x then Some 0 else map_option Suc (findIndex P xs))"

definition selectedObject :: "PubView \<Rightarrow> (nat \<times> nat) option" where
  "selectedObject w =
     map_option (\<lambda>i. (i, b_version (books (publishing w) ! i)))
       (findIndex (\<lambda>b. Some (b_id b) = parseInt (selectedBookId w)) (books (publishing w)))"

text \<open>
  One render and the effects after it: \<open>prev\<close> is the state of the render before, \<open>w\<close>
  the state that is rendered now. The render sets the book selector. An effect runs
  when one of its dependencies differs from the render before; all effects read the
  values of this render, and what they set is applied together. The first effect is
  run whenever its own test holds: after it has run once with these dependencies the
  test is false.
\<close>

definition p_commit :: "PubView \<Rightarrow> PubView \<Rightarrow> PubView" where
  "p_commit prev w =
     (let sel = selectedBook w;
          bookChanged = (selectedObject prev \<noteq> selectedObject w);
          w1 = p_selectFirstBook (renderBookSelect w);
          w2 = (if bookChanged \<or> activeChapterIndex prev \<noteq> activeChapterIndex w
                then p_loadManuscript sel (activeChapterIndex w) w1 else w1);
          w3 = (if bookChanged \<or> p_activeTab prev \<noteq> p_activeTab w
                then p_loadCollaborators sel (p_activeTab w) w2 else w2)
      in w3)"

text \<open>
  What the first effect sets shows in the next render, so a second render follows;
  after it no dependency changes any more.
\<close>

definition p_settle :: "PubView \<Rightarrow> PubView \<Rightarrow> PubView" where
  "p_settle prev w = p_commit w (p_commit prev w)"

section \<open>Sequences of mutations\<close>




subsection \<open>The net effect, in the words of the specification\<close>

























section \<open>States used as examples\<close>

definition blankRow :: Collaborator where
  "blankRow = \<lparr>name = [], share = []\<rparr>"

definition row :: "string \<Rightarrow> string \<Rightarrow> Collaborator" where
  "row n s = \<lparr>name = n, share = s\<rparr>"

definition neonPulse :: "addr list \<Rightarrow> Release" where
  "neonPulse saved =
     \<lparr>r_id = 1, r_title = ''Neon Pulse'', r_artist = ''Synth Rider'', r_status = Live,
      r_genre = Some ''Synthwave'', r_releaseDate = None, r_splits = saved\<rparr>"

definition demoBook :: "int \<Rightarrow> string \<Rightarrow> addr list \<Rightarrow> Book" where
  "demoBook i title splits =
     \<lparr>b_id = i, b_title = title, b_author = ''Ada'', b_genre = ''Sci-Fi'', b_status = Draft,
      b_rights = \<lparr>territorial = True, translation = False, adaptation = False, audio = False,
                  drm = True\<rparr>,
      b_splits = splits, b_chapters = [Some \<lparr>ch_title = Some ''Chapter 1'', ch_content = []\<rparr>],
      b_blurb = [], b_keywords = [], b_illustrations = [], b_coverImageUrl = [], b_version = 0\<rparr>"

text \<open>
  A store at time 1000 with one release, one book and one task in each task list; the
  music task is open, the publishing task is done.
\<close>

definition demoStore :: AppStore where
  "demoStore =
     \<lparr>isInitialized = True, view = DASHBOARD, toasts = [],
      onboarding = \<lparr>tourStepIndex = - 1, onboardingComplete = True, activeTabOverride = None\<rparr>,
      music = \<lparr>releases = [neonPulse [0, 1]],
                m_tasks = [\<lparr>t_id = 5, t_text = ''Master the single'', t_dueDate = [],
                           t_completed = False\<rparr>]\<rparr>,
      publishing = \<lparr>books = [demoBook 1 ''Dune'' [2]],
                     p_tasks = [\<lparr>t_id = 5, t_text = ''Send the proofs'', t_dueDate = [],
                                t_completed = True\<rparr>]\<rparr>,
      rows = [row ''A'' ''60'', row ''B'' ''40'', row ''Ada'' ''100''],
      clock = 1000, saveLog = [], timers = []\<rparr>"



text \<open>
  The music view on its splits tab, with one release, identity 1, selected: \<open>h\<close> is the
  heap of rows, \<open>saved\<close> the splits of the release and \<open>buffer\<close> the rows being edited.
\<close>

definition musicSplitsView :: "heap \<Rightarrow> addr list \<Rightarrow> addr list \<Rightarrow> MusicView" where
  "musicSplitsView h saved buffer =
     \<lparr>isInitialized = True, view = MUSIC, toasts = [],
      onboarding = \<lparr>tourStepIndex = - 1, onboardingComplete = True, activeTabOverride = None\<rparr>,
      music = \<lparr>releases = [neonPulse saved], m_tasks = []\<rparr>,
      publishing = \<lparr>books = [], p_tasks = []\<rparr>,
      rows = h, clock = 1000, saveLog = [], timers = [],
      m_activeTab = M_splits, m_isNavModalOpen = False, m_nextNavigationAction = None,
      selectedReleaseId = ''1'', m_collaborators = buffer\<rparr>"

text \<open>
  The splits editor shows the release with the saved rows A, 60 and B, 40. The user
  changes the share of B to 41, adds a row and names it C.
\<close>

definition splitsLoaded :: MusicView where
  "splitsLoaded = musicSplitsView [row ''A'' ''60'', row ''B'' ''40''] [0, 1] [0, 1]"

definition splitsEdited :: MusicView where
  "splitsEdited =
     m_handleCollaboratorChange 2 Field_name ''C''
       (m_handleAddCollaborator (m_handleCollaboratorChange 1 Field_share ''41'' splitsLoaded))"

text \<open>With these edits the user clicks the studio tab.\<close>

definition splitsPending :: MusicView where
  "splitsPending = m_handleNavigate (M_setActiveTab M_studio) splitsEdited"

text \<open>
  The publishing view with two books, identities 1 and 2, whose saved splits are the
  rows at the addresses 0 and 1 of \<open>h\<close>.
\<close>

definition pubView :: "heap \<Rightarrow> pub_tab \<Rightarrow> string \<Rightarrow> addr list \<Rightarrow> bool \<Rightarrow> PubView" where
  "pubView h tab sel buffer dirty =
     \<lparr>isInitialized = True, view = PUBLISHING, toasts = [],
      onboarding = \<lparr>tourStepIndex = - 1, onboardingComplete = True, activeTabOverride = None\<rparr>,
      music = \<lparr>releases = [], m_tasks = []\<rparr>,
      publishing = \<lparr>books = [demoBook 1 ''Dune'' [0], demoBook 2 ''Emma'' [1]], p_tasks = []\<rparr>,
      rows = h, clock = 1000, saveLog = [], timers = [],
      p_activeTab = tab, selectedBookId = sel, bookSelect = sel, p_isNavModalOpen = False,
      p_nextNavigationAction = None, isManuscriptDirty = dirty, manuscriptText = [],
      lastManuscriptState = None, activeChapterIndex = 0, p_collaborators = buffer, awaiting = []\<rparr>"

text \<open>
  On the rights and splits tab with the first book selected, the user adds a row, names
  it Bob and picks the second book in the selector.
\<close>

definition bookEdited :: "heap \<Rightarrow> PubView" where
  "bookEdited h =
     p_handleCollaboratorChange 1 Field_name ''Bob''
       (p_handleAddCollaborator (pubView h P_rights_splits ''1'' [0] False))"

definition bookSwitchPending :: "heap \<Rightarrow> PubView" where
  "bookSwitchPending h = p_handleBookSelect ''2'' (bookEdited h)"

text \<open>
  On the studio tab with the first book selected and the manuscript flag set, as it is
  after a manuscript has been uploaded, the user clicks the rights and splits tab. That
  tab has not been shown yet, so the buffer of rows is empty, as it is when the view is
  mounted.
\<close>

definition uploadPending :: "heap \<Rightarrow> PubView" where
  "uploadPending h =
     p_handleNavigate (P_setActiveTab P_rights_splits) (pubView h P_studio ''1'' [] True)"

section \<open>Properties of the dirty check\<close>

lemma parseInt_1: "parseInt ''1'' = Some 1"
  by (simp add: parseInt_def is_ws_def is_digit_def digits_val_def digit_val_def)

lemma parseInt_2: "parseInt ''2'' = Some 2"
  by (simp add: parseInt_def is_ws_def is_digit_def digits_val_def digit_val_def)

lemma selectedRelease_musicSplitsView:
  "selectedRelease (musicSplitsView h saved buffer) = Some (neonPulse saved)"
  by (simp add: selectedRelease_def musicSplitsView_def neonPulse_def parseInt_1)



lemma normalize_append: "normalizeRows (xs @ ys) = normalizeRows xs @ normalizeRows ys"
  by (simp add: normalizeRows_def)

lemma notEmptyRow_blank: "\<not> notEmptyRow \<lparr>name = [], share = []\<rparr>"
  by (simp add: notEmptyRow_def trim_def)

lemma normalize_blank: "normalizeRows [\<lparr>name = [], share = []\<rparr>] = []"
  by (simp add: normalizeRows_def notEmptyRow_blank)

lemma splitsDiffer_normalize:
  "splitsDiffer B S = (JSON_stringify (normalizeRows B) \<noteq> JSON_stringify S)"
  by (simp add: splitsDiffer_def normalizeRows_def)

lemma deref_append_heap: "\<forall>a\<in>set as. a < length h \<Longrightarrow> deref (h @ xs) as = deref h as"
  by (simp add: deref_def nth_append)

lemma deref_append: "deref h (as @ bs) = deref h as @ deref h bs"
  by (simp add: deref_def)

lemma deref_fresh: "deref (h @ [c]) [length h] = [c]"
  by (simp add: deref_def)

text \<open>
  Claim C1, as the specification states it: the check is false whenever the edit
  buffer and the saved splits are equal after the rows with a blank name and a blank
  share are removed from both. The code removes these rows from the buffer only. With
  an empty buffer and one saved row whose two fields are empty, both lists are empty
  after the removal, and the check of the music view is true.
\<close>

theorem isDirty_normalized_both_counterexample:
  "normalizeRows (deref [blankRow] []) = normalizeRows (deref [blankRow] [0])
   \<and> selectedRelease (musicSplitsView [blankRow] [0] []) = Some (neonPulse [0])
   \<and> m_isDirty (musicSplitsView [blankRow] [0] [])"
  by (simp add: m_isDirty_def selectedRelease_musicSplitsView)
     (simp add: musicSplitsView_def neonPulse_def deref_def normalizeRows_def notEmptyRow_def trim_def
        blankRow_def splitsDiffer_def JSON_stringify_def json_row_def)

text \<open>
  Claim C1, amended: the check is false whenever the buffer without its blank rows is
  equal to the saved splits as they are. This holds for the comparison itself, for the
  check of the music view and for the splits check of the publishing view.
\<close>

theorem isDirty_false_when_cleaned_buffer_is_saved:
  "(normalizeRows B = S \<longrightarrow> \<not> splitsDiffer B S)
   \<and> (selectedRelease w = Some r
        \<and> normalizeRows (deref (rows w) (m_collaborators w)) = deref (rows w) (r_splits r)
        \<longrightarrow> \<not> m_isDirty w)
   \<and> (selectedBook v = Some b
        \<and> normalizeRows (deref (rows v) (p_collaborators v)) = deref (rows v) (b_splits b)
        \<longrightarrow> \<not> areSplitsDirty v)"
  by (simp add: splitsDiffer_normalize m_isDirty_def areSplitsDirty_def)

text \<open>
  The amended claim C1 at a buffer with the saved row A, 60 and a new blank row, and
  at the state of the publishing view with the saved row of the first book and a new
  blank row in its buffer.
\<close>

theorem isDirty_false_when_cleaned_buffer_is_saved_witness:
  "normalizeRows [row ''A'' ''60'', blankRow] = [row ''A'' ''60'']
   \<and> \<not> splitsDiffer [row ''A'' ''60'', blankRow] [row ''A'' ''60'']
   \<and> selectedRelease (musicSplitsView [row ''A'' ''60'', blankRow] [0] [0, 1]) = Some (neonPulse [0])
   \<and> \<not> m_isDirty (musicSplitsView [row ''A'' ''60'', blankRow] [0] [0, 1])
   \<and> selectedBook (pubView [row ''A'' ''60'', blankRow] P_rights_splits ''1'' [0, 1] False)
       = Some (demoBook 1 ''Dune'' [0])
   \<and> \<not> areSplitsDirty (pubView [row ''A'' ''60'', blankRow] P_rights_splits ''1'' [0, 1] False)"
proof -
  let ?h = "[row ''A'' ''60'', blankRow]"
  have n: "normalizeRows ?h = [row ''A'' ''60'']"
    by (simp add: normalizeRows_def notEmptyRow_def trim_def row_def blankRow_def is_ws_def)
  have s: "selectedRelease (musicSplitsView ?h [0] [0, 1]) = Some (neonPulse [0])"
    by (rule selectedRelease_musicSplitsView)
  have d: "normalizeRows (deref (rows (musicSplitsView ?h [0] [0, 1]))
               (m_collaborators (musicSplitsView ?h [0] [0, 1])))
           = deref (rows (musicSplitsView ?h [0] [0, 1])) (r_splits (neonPulse [0]))"
    using n by (simp add: musicSplitsView_def neonPulse_def deref_def)
  have t: "selectedBook (pubView ?h P_rights_splits ''1'' [0, 1] False) = Some (demoBook 1 ''Dune'' [0])"
    by (simp add: selectedBook_def pubView_def demoBook_def parseInt_1)
  have e: "normalizeRows (deref (rows (pubView ?h P_rights_splits ''1'' [0, 1] False))
               (p_collaborators (pubView ?h P_rights_splits ''1'' [0, 1] False)))
           = deref (rows (pubView ?h P_rights_splits ''1'' [0, 1] False)) (b_splits (demoBook 1 ''Dune'' [0]))"
    using n by (simp add: pubView_def demoBook_def deref_def)
  show ?thesis
    using n s d t e
      isDirty_false_when_cleaned_buffer_is_saved
        [of ?h "[row ''A'' ''60'']" "musicSplitsView ?h [0] [0, 1]" "neonPulse [0]"
            "pubView ?h P_rights_splits ''1'' [0, 1] False" "demoBook 1 ''Dune'' [0]"]
    by blast
qed

lemma selectedRelease_addCollaborator:
  "selectedRelease (m_handleAddCollaborator w) = selectedRelease w"
  by (simp add: selectedRelease_def m_handleAddCollaborator_def)

lemma m_isDirty_addCollaborator:
  assumes "selectedRelease w = Some r"
    and "\<forall>a\<in>set (m_collaborators w). a < length (rows w)"
    and "\<forall>a\<in>set (r_splits r). a < length (rows w)"
  shows "m_isDirty (m_handleAddCollaborator w) = m_isDirty w"
proof -
  have 1: "deref (rows (m_handleAddCollaborator w)) (m_collaborators (m_handleAddCollaborator w))
           = deref (rows w) (m_collaborators w) @ [\<lparr>name = [], share = []\<rparr>]"
    using assms(2) by (simp add: m_handleAddCollaborator_def deref_append deref_append_heap deref_fresh)
  have 2: "deref (rows (m_handleAddCollaborator w)) (r_splits r) = deref (rows w) (r_splits r)"
    using assms(3) by (simp add: m_handleAddCollaborator_def deref_append_heap)
  have 3: "m_activeTab (m_handleAddCollaborator w) = m_activeTab w"
    by (simp add: m_handleAddCollaborator_def)
  show ?thesis
    using assms(1)
    by (simp add: m_isDirty_def selectedRelease_addCollaborator 1 2 3 splitsDiffer_normalize
        normalize_append normalize_blank)
qed

text \<open>
  Claim C9, as the specification states it: when the buffer is equal to the saved
  splits of the selected release, the check is false after an empty row is appended.
  The saved splits can hold a row with two empty fields (the check never removes rows
  from the saved side). With such a saved row and a buffer equal to the saved splits,
  the check is true after \<open>handleAddCollaborator\<close>.
\<close>

theorem empty_row_appended_counterexample:
  "deref (rows (musicSplitsView [blankRow] [0] [0])) (m_collaborators (musicSplitsView [blankRow] [0] [0]))
     = deref (rows (musicSplitsView [blankRow] [0] [0])) (r_splits (neonPulse [0]))
   \<and> selectedRelease (musicSplitsView [blankRow] [0] [0]) = Some (neonPulse [0])
   \<and> m_isDirty (m_handleAddCollaborator (musicSplitsView [blankRow] [0] [0]))"
  by (simp add: m_isDirty_def selectedRelease_addCollaborator selectedRelease_musicSplitsView)
     (simp add: musicSplitsView_def neonPulse_def m_handleAddCollaborator_def deref_def
        notEmptyRow_def trim_def blankRow_def splitsDiffer_def JSON_stringify_def json_row_def)

text \<open>
  Claim C9, amended: when the buffer is equal to the saved splits of the selected
  release, and no saved row has both fields blank, the check is false after an empty
  row is appended. The rows of the buffer and of the release are rows of the heap.
\<close>

theorem empty_row_appended_keeps_clean:
  assumes "selectedRelease w = Some r"
    and "deref (rows w) (m_collaborators w) = deref (rows w) (r_splits r)"
    and "\<forall>c\<in>set (deref (rows w) (r_splits r)). notEmptyRow c"
    and "\<forall>a\<in>set (m_collaborators w) \<union> set (r_splits r). a < length (rows w)"
  shows "\<not> m_isDirty (m_handleAddCollaborator w)"
proof -
  have "m_isDirty (m_handleAddCollaborator w) = m_isDirty w"
    using assms(1,4) by (intro m_isDirty_addCollaborator) auto
  moreover have "normalizeRows (deref (rows w) (m_collaborators w)) = deref (rows w) (r_splits r)"
    using assms(2,3) by (simp add: normalizeRows_def)
  ultimately show ?thesis
    using assms(1) by (simp add: m_isDirty_def splitsDiffer_normalize)
qed

text \<open>
  The amended claim C9 at the splits editor that shows the saved rows A, 60 and B, 40.
\<close>

theorem empty_row_appended_keeps_clean_witness:
  "selectedRelease splitsLoaded = Some (neonPulse [0, 1])
   \<and> deref (rows splitsLoaded) (m_collaborators splitsLoaded) = [row ''A'' ''60'', row ''B'' ''40'']
   \<and> deref (rows splitsLoaded) (r_splits (neonPulse [0, 1])) = [row ''A'' ''60'', row ''B'' ''40'']
   \<and> m_collaborators (m_handleAddCollaborator splitsLoaded) = [0, 1, 2]
   \<and> \<not> m_isDirty (m_handleAddCollaborator splitsLoaded)"
proof -
  have s: "selectedRelease splitsLoaded = Some (neonPulse [0, 1])"
    by (simp add: splitsLoaded_def selectedRelease_musicSplitsView)
  have b: "deref (rows splitsLoaded) (m_collaborators splitsLoaded) = [row ''A'' ''60'', row ''B'' ''40'']"
    and d: "deref (rows splitsLoaded) (r_splits (neonPulse [0, 1])) = [row ''A'' ''60'', row ''B'' ''40'']"
    by (simp_all add: splitsLoaded_def musicSplitsView_def neonPulse_def deref_def)
  have n: "\<forall>c\<in>set (deref (rows splitsLoaded) (r_splits (neonPulse [0, 1]))). notEmptyRow c"
    unfolding d by (simp add: notEmptyRow_def trim_def row_def is_ws_def)
  have a: "\<forall>a\<in>set (m_collaborators splitsLoaded) \<union> set (r_splits (neonPulse [0, 1])). a < length (rows splitsLoaded)"
    by (simp add: splitsLoaded_def musicSplitsView_def neonPulse_def)
  have c: "m_collaborators (m_handleAddCollaborator splitsLoaded) = [0, 1, 2]"
    by (simp add: splitsLoaded_def musicSplitsView_def m_handleAddCollaborator_def)
  show ?thesis
    using s b d c empty_row_appended_keeps_clean [OF s _ n a] by simp
qed

section \<open>Properties of the navigation guard\<close>

lemma m_run_modal:
  "m_isNavModalOpen (m_run a w) = m_isNavModalOpen w"
  "m_nextNavigationAction (m_run a w) = m_nextNavigationAction w"
  by (cases a; simp add: setView_def)+

lemma p_run_modal:
  "p_isNavModalOpen (p_run b v) = p_isNavModalOpen v"
  "p_nextNavigationAction (p_run b v) = p_nextNavigationAction v"
  by (cases b; simp add: setView_def updateBook_def saveState_def Let_def)+

lemma p_isDirty_bookSelect: "p_isDirty (v\<lparr>bookSelect := s\<rparr>) = p_isDirty v"
  by (simp add: p_isDirty_def areSplitsDirty_def selectedBook_def split: option.splits)

text \<open>
  Claim C2: when the check reports dirty, \<open>handleNavigate\<close> changes nothing but the
  pending action, which becomes the requested one, and the prompt, which opens: the
  view, the tab, the selection and the store stay as they are. When the check does not
  report dirty, \<open>handleNavigate\<close> is the requested action, run at once, and the prompt
  and the pending action stay as they are. Both views. For the book selector of the
  publishing view: when the check reports dirty the book that was picked is not
  selected and the selector shows the selected book again; when it does not, the book
  that was picked is selected.
\<close>

theorem handleNavigate_guard:
  "(m_isDirty w \<longrightarrow>
      m_handleNavigate a w = w\<lparr>m_nextNavigationAction := Some a, m_isNavModalOpen := True\<rparr>
      \<and> view (m_handleNavigate a w) = view w
      \<and> m_activeTab (m_handleNavigate a w) = m_activeTab w
      \<and> selectedReleaseId (m_handleNavigate a w) = selectedReleaseId w
      \<and> m_nextNavigationAction (m_handleNavigate a w) = Some a
      \<and> m_isNavModalOpen (m_handleNavigate a w))
   \<and> (\<not> m_isDirty w \<longrightarrow>
      m_handleNavigate a w = m_run a w
      \<and> m_isNavModalOpen (m_handleNavigate a w) = m_isNavModalOpen w
      \<and> m_nextNavigationAction (m_handleNavigate a w) = m_nextNavigationAction w
      \<and> view (m_handleNavigate (M_setView x) w) = x
      \<and> m_activeTab (m_handleNavigate (M_setActiveTab t) w) = t)
   \<and> (p_isDirty v \<longrightarrow>
      p_handleNavigate b v = v\<lparr>p_nextNavigationAction := Some b, p_isNavModalOpen := True\<rparr>
      \<and> view (p_handleNavigate b v) = view v
      \<and> p_activeTab (p_handleNavigate b v) = p_activeTab v
      \<and> selectedBookId (p_handleNavigate b v) = selectedBookId v
      \<and> activeChapterIndex (p_handleNavigate b v) = activeChapterIndex v
      \<and> publishing (p_handleNavigate b v) = publishing v
      \<and> p_nextNavigationAction (p_handleNavigate b v) = Some b
      \<and> p_isNavModalOpen (p_handleNavigate b v)
      \<and> p_handleBookSelect s v
          = v\<lparr>bookSelect := controlledValue (selectedBookId v) (bookOptions v),
              p_nextNavigationAction := Some P_setSelectedBookId, p_isNavModalOpen := True\<rparr>
      \<and> selectedBookId (p_handleBookSelect s v) = selectedBookId v
      \<and> publishing (p_handleBookSelect s v) = publishing v)
   \<and> (\<not> p_isDirty v \<longrightarrow>
      p_handleNavigate b v = p_run b v
      \<and> p_isNavModalOpen (p_handleNavigate b v) = p_isNavModalOpen v
      \<and> p_nextNavigationAction (p_handleNavigate b v) = p_nextNavigationAction v
      \<and> view (p_handleNavigate (P_setView x) v) = x
      \<and> p_activeTab (p_handleNavigate (P_setActiveTab u) v) = u
      \<and> selectedBookId (p_handleNavigate P_setSelectedBookId v) = bookSelect v
      \<and> selectedBookId (p_handleBookSelect s v) = s
      \<and> p_isNavModalOpen (p_handleBookSelect s v) = p_isNavModalOpen v
      \<and> p_nextNavigationAction (p_handleBookSelect s v) = p_nextNavigationAction v
      \<and> activeChapterIndex (p_handleNavigate (P_setActiveChapterIndex n) v) = n)"
  by (simp add: m_handleNavigate_def p_handleNavigate_def m_run_modal p_run_modal setView_def
      p_handleBookSelect_def renderBookSelect_def p_isDirty_bookSelect bookOptions_def)

lemmas example_states =
  splitsLoaded_def splitsEdited_def splitsPending_def musicSplitsView_def neonPulse_def
  pubView_def bookEdited_def bookSwitchPending_def uploadPending_def demoBook_def row_def
  blankRow_def

lemma toString_1: "toString 1 = ''1''"
  by code_simp

lemma toString_2: "toString 2 = ''2''"
  by code_simp

lemmas book_options =
  bookOptions_def controlledValue_def renderBookSelect_def p_handleBookSelect_def
  toString_1 toString_2

lemmas view_handlers =
  book_options
  m_handleNavigate_def m_handleCollaboratorChange_def m_handleAddCollaborator_def
  m_handleDiscardAndNavigate_def m_handleSaveAndNavigate_def m_handleSaveSplits_def
  m_handleCancelNavigation_def m_loadCollaborators_def m_isDirty_def selectedRelease_def
  p_handleNavigate_def p_handleCollaboratorChange_def p_handleAddCollaborator_def
  p_handleDiscardAndNavigate_def p_handleSaveAndNavigate_def p_handleSaveSplits_def
  p_handleCancelNavigation_def p_isDirty_def areSplitsDirty_def selectedBook_def selectedObject_def
  p_settle_def p_commit_def p_selectFirstBook_def p_loadManuscript_def p_loadCollaborators_def
  chapterContent_def changeRow_def writeRow_def share_pattern_def parseFloat_gt_100_def
  is_digit_def digits_val_def digit_val_def parseInt_1 parseInt_2
  splitsDiffer_def JSON_stringify_def json_row_def json_key_def quoteJSONString_def quote_unit_def
  notEmptyRow_def trim_def is_ws_def deref_def cleanRows_def
  updateMusicSplits_def updateBook_def patchBook_def emptyPatch_def or_else_def
  saveState_def forceSave_def snapshot_def addToast_def splitsToast_def setView_def Let_def

text \<open>
  Claim C2 at four states: the music view with edited splits and with the splits as
  saved, the publishing view with an edited row and with the splits as saved.
\<close>

theorem handleNavigate_guard_witness:
  "m_isDirty splitsEdited
   \<and> m_activeTab (m_handleNavigate (M_setActiveTab M_studio) splitsEdited) = M_splits
   \<and> m_nextNavigationAction (m_handleNavigate (M_setActiveTab M_studio) splitsEdited)
       = Some (M_setActiveTab M_studio)
   \<and> m_isNavModalOpen (m_handleNavigate (M_setActiveTab M_studio) splitsEdited)
   \<and> \<not> m_isDirty splitsLoaded
   \<and> m_activeTab (m_handleNavigate (M_setActiveTab M_studio) splitsLoaded) = M_studio
   \<and> \<not> m_isNavModalOpen (m_handleNavigate (M_setActiveTab M_studio) splitsLoaded)
   \<and> p_isDirty (bookEdited [row ''Ada'' ''100'', row ''Eve'' ''100''])
   \<and> selectedBookId (p_handleBookSelect ''2''
          (bookEdited [row ''Ada'' ''100'', row ''Eve'' ''100''])) = ''1''
   \<and> bookSelect (p_handleBookSelect ''2''
          (bookEdited [row ''Ada'' ''100'', row ''Eve'' ''100''])) = ''1''
   \<and> p_nextNavigationAction (p_handleBookSelect ''2''
          (bookEdited [row ''Ada'' ''100'', row ''Eve'' ''100''])) = Some P_setSelectedBookId
   \<and> p_isNavModalOpen (p_handleBookSelect ''2''
          (bookEdited [row ''Ada'' ''100'', row ''Eve'' ''100'']))
   \<and> \<not> p_isDirty (pubView [row ''Ada'' ''100'', row ''Eve'' ''100''] P_rights_splits ''1'' [0] False)
   \<and> selectedBookId (p_handleBookSelect ''2''
          (pubView [row ''Ada'' ''100'', row ''Eve'' ''100''] P_rights_splits ''1'' [0] False)) = ''2''"
proof -
  let ?h = "[row ''Ada'' ''100'', row ''Eve'' ''100'']"
  let ?c = "pubView ?h P_rights_splits ''1'' [0] False"
  have md: "m_isDirty splitsEdited" and mc: "\<not> m_isDirty splitsLoaded"
    by (simp_all add: example_states view_handlers)
  have pd: "p_isDirty (bookEdited ?h)" and pc: "\<not> p_isDirty ?c"
    by (simp_all add: example_states view_handlers)
  have f: "m_activeTab splitsEdited = M_splits" "\<not> m_isNavModalOpen splitsLoaded"
    "selectedBookId (bookEdited ?h) = ''1''"
    "controlledValue (selectedBookId (bookEdited ?h)) (bookOptions (bookEdited ?h)) = ''1''"
    by (simp_all add: example_states view_handlers book_options)
  show ?thesis
    using md mc pd pc f
      handleNavigate_guard [where w = splitsEdited and a = "M_setActiveTab M_studio"
        and t = M_studio and v = "bookEdited ?h" and s = "''2''"]
      handleNavigate_guard [where w = splitsLoaded and a = "M_setActiveTab M_studio"
        and t = M_studio and v = ?c and s = "''2''"]
    by simp
qed

section \<open>Discarding changes\<close>

text \<open>
  Claim C3, at the input at which the code fails it. The release is saved with the rows
  A, 60 and B, 40. The user changes the share of B to 41 (the check does not see this
  edit), adds a row named C (now the check is dirty) and asks for the studio tab; the
  prompt opens with that action pending. Nothing has been saved and the store has got
  no mutation since the rows were loaded. After \<open>handleDiscardAndNavigate\<close> the action
  has run and the prompt is closed, the new row is gone, and the buffer holds A, 60 and
  B, 41: the edit of the share was written into the row object that the store holds
  too, so it is still there.
\<close>

theorem discard_keeps_edit_of_saved_row:
  "deref (rows splitsLoaded) (r_splits (neonPulse [0, 1])) = [row ''A'' ''60'', row ''B'' ''40'']
   \<and> \<not> m_isDirty (m_handleCollaboratorChange 1 Field_share ''41'' splitsLoaded)
   \<and> m_isDirty splitsEdited
   \<and> m_isNavModalOpen splitsPending
   \<and> m_nextNavigationAction splitsPending = Some (M_setActiveTab M_studio)
   \<and> m_activeTab splitsPending = M_splits
   \<and> saveLog splitsPending = []
   \<and> music splitsPending = music splitsLoaded
   \<and> m_activeTab (m_handleDiscardAndNavigate splitsPending) = M_studio
   \<and> \<not> m_isNavModalOpen (m_handleDiscardAndNavigate splitsPending)
   \<and> m_collaborators (m_handleDiscardAndNavigate splitsPending) = [0, 1]
   \<and> deref (rows (m_handleDiscardAndNavigate splitsPending))
        (m_collaborators (m_handleDiscardAndNavigate splitsPending))
       = [row ''A'' ''60'', row ''B'' ''41'']"
  by (simp add: example_states view_handlers)

section \<open>Saving and continuing\<close>

subsection \<open>The music view\<close>










subsection \<open>The publishing view\<close>











lemma patch_one_field [simp]:
  "b_splits (patchBook (emptyPatch\<lparr>pt_chapters := Some c\<rparr>) b) = b_splits b"
  "b_id (patchBook (emptyPatch\<lparr>pt_chapters := Some c\<rparr>) b) = b_id b"
  "b_splits (patchBook (emptyPatch\<lparr>pt_splits := Some s\<rparr>) b) = s"
  "b_id (patchBook (emptyPatch\<lparr>pt_splits := Some s\<rparr>) b) = b_id b"
  by (simp_all add: patchBook_def emptyPatch_def or_else_def)



















section \<open>Properties of the store\<close>


lemma publishing_advance [simp]: "publishing (advance t w) = publishing w"
proof -
  have "publishing (fold (\<lambda>d v. saveState (v\<lparr>clock := max (clock v) d\<rparr>)) ds v) = publishing v"
    for ds and v :: "'a AppStore_scheme"
    by (induction ds arbitrary: v) (simp_all add: saveState_def)
  then show ?thesis by (simp add: advance_def Let_def)
qed

lemma clock_fold_le:
  "clock v \<le> t \<Longrightarrow> \<forall>d\<in>set ds. d \<le> t \<Longrightarrow>
   clock (fold (\<lambda>d v. saveState (v\<lparr>clock := max (clock v) d\<rparr>)) ds v) \<le> t"
  by (induction ds arbitrary: v) (simp_all add: saveState_def)

lemma clock_advance: "clock w \<le> t \<Longrightarrow> clock (advance t w) = t"
proof -
  assume a: "clock w \<le> t"
  have "\<forall>d\<in>set (takeWhile (\<lambda>d. d \<le> t) (timers w)). d \<le> t"
    by (auto dest: set_takeWhileD)
  with a have "clock (fold (\<lambda>d v. saveState (v\<lparr>clock := max (clock v) d\<rparr>))
        (takeWhile (\<lambda>d. d \<le> t) (timers w)) (w\<lparr>timers := dropWhile (\<lambda>d. d \<le> t) (timers w)\<rparr>)) \<le> t"
    by (intro clock_fold_le) simp_all
  then show ?thesis by (simp add: advance_def Let_def max_def)
qed

lemma clock_adds [simp]:
  "clock (addMusicTask x d w) = clock w"
  "clock (addPublishingTask x d w) = clock w"
  "clock (addRelease r w) = clock w"
  "clock (snd (addBook b w)) = clock w"
  by (simp_all add: addMusicTask_def addPublishingTask_def addRelease_def addBook_def saveState_def Let_def)

lemmas store_actions =
  addRelease_def updateMusicSplits_def addMusicTask_def toggleMusicTask_def addBook_def
  updateBook_def updateChapterContent_def addPublishingTask_def togglePublishingTask_def
  saveState_def Let_def









subsection \<open>The code and the net effect\<close>










subsection \<open>How many entities a mutation changes\<close>









subsection \<open>Identities along a sequence\<close>






subsection \<open>Single entities along a sequence\<close>



















text \<open>
  Claim C8, as the specification states it: the identity that an add assigns is
  distinct from every identity in the collection, also across two adds in a row. The
  identity is \<open>Date.now()\<close>. Two tasks added to the example store within the same
  millisecond get the same identity, 1000.
\<close>

theorem add_identity_counterexample:
  "map t_id (m_tasks (music (addMusicTask ''Mix the single'' [] demoStore))) = [5, 1000]
   \<and> map t_id (m_tasks (music (addMusicTask ''Book the studio'' []
        (addMusicTask ''Mix the single'' [] demoStore)))) = [5, 1000, 1000]
   \<and> t_id (last (m_tasks (music (addMusicTask ''Book the studio'' []
        (addMusicTask ''Mix the single'' [] demoStore)))))
       \<in> t_id ` set (m_tasks (music (addMusicTask ''Mix the single'' [] demoStore)))"
  by (simp add: demoStore_def addMusicTask_def saveState_def)

text \<open>
  Claim C8, amended: the identity that an add assigns is the time of the call in
  milliseconds. It is distinct from every identity in the collection when all of them
  are below that time, and the identities of two adds differ when time has passed
  between them.
\<close>

theorem add_identity_is_the_time:
  "r_id (last (releases (music (addRelease rd w)))) = int (clock w)
   \<and> t_id (last (m_tasks (music (addMusicTask x d w)))) = int (clock w)
   \<and> b_id (last (books (publishing (snd (addBook bd w))))) = int (clock w)
   \<and> t_id (last (p_tasks (publishing (addPublishingTask x d w)))) = int (clock w)
   \<and> ((\<forall>r\<in>set (releases (music w)). r_id r < int (clock w)) \<longrightarrow>
       r_id (last (releases (music (addRelease rd w)))) \<notin> r_id ` set (releases (music w)))
   \<and> ((\<forall>t\<in>set (m_tasks (music w)). t_id t < int (clock w)) \<longrightarrow>
       t_id (last (m_tasks (music (addMusicTask x d w)))) \<notin> t_id ` set (m_tasks (music w)))
   \<and> ((\<forall>b\<in>set (books (publishing w)). b_id b < int (clock w)) \<longrightarrow>
       b_id (last (books (publishing (snd (addBook bd w))))) \<notin> b_id ` set (books (publishing w)))
   \<and> ((\<forall>t\<in>set (p_tasks (publishing w)). t_id t < int (clock w)) \<longrightarrow>
       t_id (last (p_tasks (publishing (addPublishingTask x d w)))) \<notin> t_id ` set (p_tasks (publishing w)))
   \<and> (clock w < t \<longrightarrow>
       t_id (last (m_tasks (music (addMusicTask x' d' (advance t (addMusicTask x d w))))))
         \<noteq> t_id (last (m_tasks (music (addMusicTask x d w))))
       \<and> r_id (last (releases (music (addRelease rd' (advance t (addRelease rd w))))))
         \<noteq> r_id (last (releases (music (addRelease rd w))))
       \<and> b_id (last (books (publishing (snd (addBook bd' (advance t (snd (addBook bd w))))))))
         \<noteq> b_id (last (books (publishing (snd (addBook bd w)))))
       \<and> t_id (last (p_tasks (publishing (addPublishingTask x' d' (advance t (addPublishingTask x d w))))))
         \<noteq> t_id (last (p_tasks (publishing (addPublishingTask x d w)))))"
proof -
  have adv: "clock w < t \<Longrightarrow>
      clock (advance t (addMusicTask x d w)) = t \<and> clock (advance t (addRelease rd w)) = t
      \<and> clock (advance t (snd (addBook bd w))) = t \<and> clock (advance t (addPublishingTask x d w)) = t"
    by (simp add: clock_advance)
  show ?thesis
    using adv by (auto simp: store_actions)
qed

text \<open>
  The amended claim C8 at the example store, whose identities 1 and 5 are below its
  time 1000, with a second add one millisecond later.
\<close>

theorem add_identity_is_the_time_witness:
  "r_id (last (releases (music (addRelease (neonPulse []) demoStore)))) = 1000
   \<and> r_id ` set (releases (music demoStore)) = {1}
   \<and> t_id ` set (m_tasks (music demoStore)) = {5}
   \<and> b_id ` set (books (publishing demoStore)) = {1}
   \<and> t_id ` set (p_tasks (publishing demoStore)) = {5}
   \<and> clock demoStore < 1001
   \<and> t_id (last (m_tasks (music (addMusicTask ''Book the studio'' []
        (advance 1001 (addMusicTask ''Mix the single'' [] demoStore)))))) \<noteq> 1000"
proof -
  have i: "r_id ` set (releases (music demoStore)) = {1}" "t_id ` set (m_tasks (music demoStore)) = {5}"
    "b_id ` set (books (publishing demoStore)) = {1}" "t_id ` set (p_tasks (publishing demoStore)) = {5}"
    "clock demoStore = 1000"
    by (simp_all add: demoStore_def neonPulse_def demoBook_def)
  have lt: "clock demoStore < 1001" by (simp add: i)
  have e: "r_id (last (releases (music (addRelease (neonPulse []) demoStore)))) = int (clock demoStore)"
    "t_id (last (m_tasks (music (addMusicTask ''Mix the single'' [] demoStore)))) = int (clock demoStore)"
    "t_id (last (m_tasks (music (addMusicTask ''Book the studio'' []
        (advance 1001 (addMusicTask ''Mix the single'' [] demoStore))))))
      \<noteq> t_id (last (m_tasks (music (addMusicTask ''Mix the single'' [] demoStore))))"
    using lt
      add_identity_is_the_time [where w = demoStore and rd = "neonPulse []" and t = 1001
        and x = "''Mix the single''" and d = "[]" and x' = "''Book the studio''" and d' = "[]"]
    by blast+
  show ?thesis
    using i lt e by simp
qed

lemma toggle_twice:
  "map ((\<lambda>t. if t_id t = i then t\<lparr>t_completed := \<not> t_completed t\<rparr> else t) \<circ>
        (\<lambda>t. if t_id t = i then t\<lparr>t_completed := \<not> t_completed t\<rparr> else t)) ts = ts"
  by (induction ts) auto

lemma toggle_absent:
  "i \<notin> t_id ` set ts \<Longrightarrow>
   map (\<lambda>t. if t_id t = i then t\<lparr>t_completed := \<not> t_completed t\<rparr> else t) ts = ts"
  by (induction ts) auto

text \<open>
  Claim C10: toggling a task twice with the same identity gives back the task list as it
  was, in the music store and in the publishing store, and a toggle with an identity
  that no task has leaves the collections as they are.
\<close>

theorem toggle_task_involution:
  "m_tasks (music (toggleMusicTask i (toggleMusicTask i w))) = m_tasks (music w)
   \<and> p_tasks (publishing (togglePublishingTask i (togglePublishingTask i w))) = p_tasks (publishing w)
   \<and> (i \<notin> t_id ` set (m_tasks (music w)) \<longrightarrow> music (toggleMusicTask i w) = music w)
   \<and> (i \<notin> t_id ` set (p_tasks (publishing w)) \<longrightarrow>
        publishing (togglePublishingTask i w) = publishing w)"
  by (simp add: toggleMusicTask_def togglePublishingTask_def saveState_def toggle_twice toggle_absent)

text \<open>
  Claim C10 at the example store: no task has the identity 7, and the music task with
  the identity 5 is completed after one toggle and open again after two.
\<close>

theorem toggle_task_involution_witness:
  "7 \<notin> t_id ` set (m_tasks (music demoStore))
   \<and> music (toggleMusicTask 7 demoStore) = music demoStore
   \<and> 7 \<notin> t_id ` set (p_tasks (publishing demoStore))
   \<and> publishing (togglePublishingTask 7 demoStore) = publishing demoStore
   \<and> t_completed (hd (m_tasks (music (toggleMusicTask 5 demoStore))))
   \<and> m_tasks (music (toggleMusicTask 5 (toggleMusicTask 5 demoStore))) = m_tasks (music demoStore)"
proof -
  have a: "7 \<notin> t_id ` set (m_tasks (music demoStore))"
    and b: "7 \<notin> t_id ` set (p_tasks (publishing demoStore))"
    by (simp_all add: demoStore_def)
  have c: "t_completed (hd (m_tasks (music (toggleMusicTask 5 demoStore))))"
    by (simp add: demoStore_def toggleMusicTask_def saveState_def)
  show ?thesis
    using a b c toggle_task_involution [of 7 demoStore] toggle_task_involution [of 5 demoStore]
    by blast
qed

section \<open>Saving manuscript edits\<close>

lemma updateChapterContent_schedules:
  "length (timers (updateChapterContent k i c w)) = Suc (length (timers w))"
  "saveLog (updateChapterContent k i c w) = saveLog w"
proof -
  have "length (enqueue d es) = Suc (length es)" for d es
    by (induction es) simp_all
  then show "length (timers (updateChapterContent k i c w)) = Suc (length (timers w))"
    by (simp add: updateChapterContent_def Let_def)
  show "saveLog (updateChapterContent k i c w) = saveLog w"
    by (simp add: updateChapterContent_def Let_def)
qed

text \<open>
  Claim C6, at the input at which the code fails it. The chapter of the example book is
  edited at time 1000 and again at time 1100, within 500 milliseconds. The first edit
  saves nothing at once, as the claim says, and any other mutation, such as a toggle,
  saves at once. But each edit sets a timer of its own and none is cleared: two timers
  are waiting after the second edit, and by time 2000 the state has been saved twice, at
  1500 and at 1600, where the claim has one save, at 1600.
\<close>

theorem content_edits_are_not_coalesced:
  "saveLog (updateChapterContent 1 0 ''a'' demoStore) = []
   \<and> map fst (saveLog (toggleMusicTask 5 demoStore)) = [1000]
   \<and> timers (updateChapterContent 1 0 ''ab'' (advance 1100 (updateChapterContent 1 0 ''a'' demoStore)))
       = [1500, 1600]
   \<and> map fst (saveLog (advance 2000 (updateChapterContent 1 0 ''ab''
        (advance 1100 (updateChapterContent 1 0 ''a'' demoStore))))) = [1500, 1600]"
  by (simp add: demoStore_def updateChapterContent_def toggleMusicTask_def advance_def saveState_def
      Let_def)

section \<open>Start-up\<close>

text \<open>
  Claim C7: when the fetch of the snapshot fails, \<open>initializeApp\<close> does not reject; it
  adds an error toast, leaves the music and publishing collections as they are, and
  sets \<open>isInitialized\<close>. From the initial state of the store the collections are
  empty afterwards. Whatever the fetch does, \<open>initializeApp\<close> does not reject and sets
  \<open>isInitialized\<close>.
\<close>

theorem initializeApp_fetch_failure:
  "(fetchData oc = Inl err \<longrightarrow>
      initializeApp oc w =
        Inr (w\<lparr>isInitialized := True,
               toasts := toasts w @
                 [\<lparr>toast_id = int (clock w),
                   toast_message = ''Could not load data from the server. Please ensure the backend is running.'',
                   toast_kind = error\<rparr>]\<rparr>))
   \<and> (fetchData oc = Inl err \<longrightarrow>
        (case initializeApp oc initialState of
           Inl fault \<Rightarrow> False
         | Inr w' \<Rightarrow> isInitialized w' \<and> releases (music w') = [] \<and> m_tasks (music w') = []
             \<and> books (publishing w') = [] \<and> p_tasks (publishing w') = []
             \<and> map toast_kind (toasts w') = [error]))
   \<and> (case initializeApp oc w of Inl fault \<Rightarrow> False | Inr w' \<Rightarrow> isInitialized w')"
  by (auto simp: initializeApp_def loadSnapshot_def addToast_def initialState_def Let_def
      split: sum.splits option.splits)

text \<open>
  Claim C7 at a response with status 500, and at a request that fails on the network.
\<close>

theorem initializeApp_fetch_failure_witness:
  "fetchData (HttpResponse False ''Internal Server Error'' NotJson)
     = Inl ''Failed to fetch: Internal Server Error''
   \<and> initializeApp (HttpResponse False ''Internal Server Error'' NotJson) initialState
     = Inr (initialState\<lparr>isInitialized := True,
              toasts := [\<lparr>toast_id = 0,
                  toast_message = ''Could not load data from the server. Please ensure the backend is running.'',
                  toast_kind = error\<rparr>]\<rparr>)
   \<and> fetchData NetworkFailure = Inl ''TypeError: Failed to fetch''
   \<and> map_sum id isInitialized (initializeApp NetworkFailure initialState) = Inr True"
proof -
  have f: "fetchData (HttpResponse False ''Internal Server Error'' NotJson)
     = Inl ''Failed to fetch: Internal Server Error''"
    "fetchData NetworkFailure = Inl ''TypeError: Failed to fetch''"
    by (simp_all add: fetchData_def)
  have t: "toasts initialState = []" "clock initialState = 0"
    by (simp_all add: initialState_def)
  show ?thesis
    using f t
      initializeApp_fetch_failure [where oc = "HttpResponse False ''Internal Server Error'' NotJson"
        and err = "''Failed to fetch: Internal Server Error''" and w = initialState]
      initializeApp_fetch_failure [where oc = NetworkFailure
        and err = "''TypeError: Failed to fetch''" and w = initialState]
    by simp
qed

end
